theory Spec2Isabelle
  imports Main "HOL-Library.Sublist"
begin

section \<open>Python values, exceptions and text primitives\<close>

text \<open>
  The assistant of \<^verbatim>\<open>app.py\<close> evaluates the model's reply into a Python value and walks
  over it with \<^verbatim>\<open>dict.get\<close>, truth tests and a \<^verbatim>\<open>for\<close> loop.  The values modelled are
  the literal fragment such a reply denotes: \<^verbatim>\<open>None\<close>, booleans, integers and strings (the
  hashable scalars, which are also the possible dictionary keys), lists and dictionaries.
  A dictionary is the list of its items in insertion order.  A \<open>char\<close> stands for a code
  point below 256.
\<close>

datatype key = KNone | KBool bool | KInt int | KStr string

datatype pyval = Scalar key | PList "pyval list" | PDict "(key \<times> pyval) list"

text \<open>An exception is its class name and its message, \<^verbatim>\<open>str(e)\<close>.  Only instances of
  \<^verbatim>\<open>Exception\<close> are modelled: they are what \<^verbatim>\<open>except Exception\<close> catches.\<close>

datatype exn = Exn string string

fun str_exn :: "exn \<Rightarrow> string" where
  "str_exn (Exn cls msg) = msg"

text \<open>A text between single quotes, as in \<^verbatim>\<open>'list'\<close>.\<close>

definition quoted :: "string \<Rightarrow> string" where
  "quoted s = CHR 0x27 # s @ [CHR 0x27]"

fun type_name :: "pyval \<Rightarrow> string" where
  "type_name (Scalar KNone) = ''NoneType''"
| "type_name (Scalar (KBool b)) = ''bool''"
| "type_name (Scalar (KInt i)) = ''int''"
| "type_name (Scalar (KStr s)) = ''str''"
| "type_name (PList xs) = ''list''"
| "type_name (PDict d) = ''dict''"

definition digit_char :: "nat \<Rightarrow> char" where
  "digit_char d = ''0123456789'' ! (d mod 10)"

fun str_nat :: "nat \<Rightarrow> string" where
  "str_nat n = (if n < 10 then [digit_char n] else str_nat (n div 10) @ [digit_char (n mod 10)])"

declare str_nat.simps [simp del]

definition str_int :: "int \<Rightarrow> string" where
  "str_int i = (if i < 0 then CHR ''-'' # str_nat (nat (- i)) else str_nat (nat i))"

text \<open>\<^verbatim>\<open>str(x)\<close>, as an f-string renders a scalar.\<close>

fun py_str :: "key \<Rightarrow> string" where
  "py_str KNone = ''None''"
| "py_str (KBool b) = (if b then ''True'' else ''False'')"
| "py_str (KInt i) = str_int i"
| "py_str (KStr s) = s"

text \<open>\<^verbatim>\<open>d.get(k, default)\<close> for a string key \<open>k\<close>.\<close>

definition dict_get :: "(key \<times> pyval) list \<Rightarrow> string \<Rightarrow> pyval \<Rightarrow> pyval" where
  "dict_get d k dflt = (case map_of d (KStr k) of None \<Rightarrow> dflt | Some v \<Rightarrow> v)"

text \<open>The truth value of an object, as \<^verbatim>\<open>if not actions\<close> tests it.\<close>

fun truthy :: "pyval \<Rightarrow> bool" where
  "truthy (Scalar KNone) = False"
| "truthy (Scalar (KBool b)) = b"
| "truthy (Scalar (KInt i)) = (i \<noteq> 0)"
| "truthy (Scalar (KStr s)) = (s \<noteq> [])"
| "truthy (PList xs) = (xs \<noteq> [])"
| "truthy (PDict d) = (d \<noteq> [])"

text \<open>The items a \<^verbatim>\<open>for\<close> loop walks over: the elements of a list, the keys of a
  dictionary, the characters of a string; other scalars are not iterable.\<close>

fun py_iter :: "pyval \<Rightarrow> exn + pyval list" where
  "py_iter (PList xs) = Inr xs"
| "py_iter (PDict d) = Inr (map (\<lambda>kv. Scalar (fst kv)) d)"
| "py_iter (Scalar (KStr s)) = Inr (map (\<lambda>c. Scalar (KStr [c])) s)"
| "py_iter v = Inl (Exn ''TypeError'' (quoted (type_name v) @ '' object is not iterable''))"

text \<open>\<^verbatim>\<open>x.get\<close> exists on dictionaries only.\<close>

definition no_get :: "pyval \<Rightarrow> exn" where
  "no_get v = Exn ''AttributeError'' (quoted (type_name v) @ '' object has no attribute '' @ quoted ''get'')"

subsection \<open>Whitespace: \<^verbatim>\<open>str.strip\<close>, \<^verbatim>\<open>str.split\<close>, \<^verbatim>\<open>str.join\<close>, \<^verbatim>\<open>str.lower\<close>\<close>

text \<open>\<^verbatim>\<open>str.isspace\<close> on one character: the code points 9 to 13, 28 to 32, 133 and 160.\<close>

definition py_isspace :: "char \<Rightarrow> bool" where
  "py_isspace c =
     (c \<in> set [CHR 0x09, CHR 0x0A, CHR 0x0B, CHR 0x0C, CHR 0x0D, CHR 0x1C, CHR 0x1D,
                CHR 0x1E, CHR 0x1F, CHR 0x20, CHR 0x85, CHR 0xA0])"

definition lstrip :: "string \<Rightarrow> string" where
  "lstrip s = dropWhile py_isspace s"

definition rstrip :: "string \<Rightarrow> string" where
  "rstrip s = rev (dropWhile py_isspace (rev s))"

definition strip :: "string \<Rightarrow> string" where
  "strip s = rstrip (lstrip s)"



fun py_join :: "string \<Rightarrow> string list \<Rightarrow> string" where
  "py_join sep [] = []"
| "py_join sep [x] = x"
| "py_join sep (x # y # ys) = x @ sep @ py_join sep (y # ys)"

definition py_lower_char :: "char \<Rightarrow> char" where
  "py_lower_char c =
     (let n = (of_char c :: nat)
      in if (65 \<le> n \<and> n \<le> 90) \<or> (192 \<le> n \<and> n \<le> 222 \<and> n \<noteq> 215)
         then char_of (n + 32) else c)"

definition py_lower :: "string \<Rightarrow> string" where
  "py_lower s = map py_lower_char s"

subsection \<open>\<^verbatim>\<open>re.sub\<close> with a literal pattern\<close>

text \<open>
  \<^verbatim>\<open>re.sub(pat, repl, s)\<close> for a non-empty pattern without metacharacters and a
  replacement without escapes, as in \<^verbatim>\<open>re.sub('false', 'False', s)\<close>: scanning from the
  left, every match is replaced and the scan resumes behind the match.
\<close>

function re_sub :: "string \<Rightarrow> string \<Rightarrow> string \<Rightarrow> string" where
  "re_sub pat repl [] = []"
| "re_sub pat repl (c # cs) =
     (if pat \<noteq> [] \<and> prefix pat (c # cs)
      then repl @ re_sub pat repl (drop (length pat) (c # cs))
      else c # re_sub pat repl cs)"
  by pat_completeness auto
termination
  by (relation "measure (\<lambda>(pat, repl, s). length s)") auto

declare re_sub.simps [simp del]

section \<open>Capabilities and the tool registry\<close>

text \<open>
  Every tool of \<^verbatim>\<open>ib.py\<close> returns \<^verbatim>\<open>create_response(result, message)\<close>, the dictionary
  \<^verbatim>\<open>{"result": result, "message": message}\<close>; \<^verbatim>\<open>execute_tool\<close> builds the same shape
  for its own failures.
\<close>

record outcome =
  result :: string
  message :: pyval

definition create_response :: "string \<Rightarrow> pyval \<Rightarrow> outcome" where
  "create_response r m = \<lparr>result = r, message = m\<rparr>"

text \<open>
  A registered callable, as \<^verbatim>\<open>inspect\<close> and a call see it: the name of the function and
  of the module that defines it, its
  parameters in order (name, the name of the annotation when there is one, the default
  when there is one), the docstring \<^verbatim>\<open>inspect.getdoc\<close> returns, and the body, which maps
  the bound arguments and the state \<open>'w\<close> of the broker side to a returned outcome or a
  raised exception, and the new state.  The decorator \<^verbatim>\<open>@mcp.tool()\<close> is taken to leave
  the function as it is.
\<close>

record param =
  pname :: string
  annotation :: "string option"
  default :: "key option"

record 'w capability =
  fname :: string
  fmodule :: string
  parameters :: "param list"
  doc :: "string option"
  body :: "(string \<Rightarrow> pyval) \<Rightarrow> 'w \<Rightarrow> (exn + outcome) \<times> 'w"

type_synonym 'w registry = "(string \<times> 'w capability) list"

subsection \<open>\<^verbatim>\<open>get_tool_schema\<close>\<close>





subsection \<open>Calling a tool with \<^verbatim>\<open>tool(**params)\<close>\<close>

fun kw_name :: "key \<Rightarrow> string option" where
  "kw_name (KStr s) = Some s"
| "kw_name k = None"

fun format_missing :: "string list \<Rightarrow> string" where
  "format_missing [] = []"
| "format_missing [x] = quoted x"
| "format_missing [x, y] = quoted x @ '' and '' @ quoted y"
| "format_missing xs = py_join '', '' (map quoted (butlast xs)) @ '', and '' @ quoted (last xs)"

text \<open>
  The binding of keyword arguments: \<open>params\<close> must be a mapping with string keys, every
  key must name a parameter, and every parameter without a default must be given.  Each
  violation is a \<^verbatim>\<open>TypeError\<close> raised at the call, before the body runs (message texts as
  CPython 3.12 words them: the complaint about \<^verbatim>\<open>**\<close> names the function with its module,
  the others with its own name).
\<close>

definition bound_value :: "param list \<Rightarrow> (key \<times> pyval) list \<Rightarrow> string \<Rightarrow> pyval" where
  "bound_value ps kw n =
     (case map_of kw (KStr n) of
        Some v \<Rightarrow> v
      | None \<Rightarrow> (case map_of (map (\<lambda>p. (pname p, default p)) ps) n of
                   Some (Some d) \<Rightarrow> Scalar d
                 | _ \<Rightarrow> Scalar KNone))"

definition bind_args ::
  "string \<Rightarrow> string \<Rightarrow> param list \<Rightarrow> pyval \<Rightarrow> exn + (string \<Rightarrow> pyval)" where
  "bind_args m f ps params =
     (case params of
        PDict kw \<Rightarrow>
          (if \<not> list_all (\<lambda>kv. kw_name (fst kv) \<noteq> None) kw
           then Inl (Exn ''TypeError'' ''keywords must be strings'')
           else case filter (\<lambda>k. k \<notin> set (map pname ps)) (List.map_filter (\<lambda>kv. kw_name (fst kv)) kw) of
                  k # ks \<Rightarrow> Inl (Exn ''TypeError''
                               (f @ ''() got an unexpected keyword argument '' @ quoted k))
                | [] \<Rightarrow>
                  (case filter (\<lambda>p. default p = None \<and> map_of kw (KStr (pname p)) = None) ps of
                     [] \<Rightarrow> Inr (bound_value ps kw)
                   | m # ms \<Rightarrow> Inl (Exn ''TypeError''
                       (f @ ''() missing '' @ str_nat (length (m # ms)) @ '' required positional argument''
                        @ (if ms = [] then [] else ''s'') @ '': ''
                        @ format_missing (map pname (m # ms))))))
      | v \<Rightarrow> Inl (Exn ''TypeError''
                 (m @ ''.'' @ f @ ''() argument after ** must be a mapping, not '' @ type_name v)))"

definition call_tool :: "'w capability \<Rightarrow> pyval \<Rightarrow> 'w \<Rightarrow> (exn + outcome) \<times> 'w" where
  "call_tool tool params w =
     (case bind_args (fmodule tool) (fname tool) (parameters tool) params of
        Inl e \<Rightarrow> (Inl e, w)
      | Inr args \<Rightarrow> body tool args w)"

section \<open>The assistant: \<^verbatim>\<open>app.py\<close>\<close>

text \<open>What the operator sees on the console, one event for each \<^verbatim>\<open>print\<close>.\<close>

datatype event =
    Banner
  | Echo string
  | EchoEnd
  | Activate string pyval
  | ToolResult pyval outcome
  | NoActions
  | ErrorProcessing string

subsection \<open>\<^verbatim>\<open>call_openai\<close>\<close>

text \<open>
  The completion service is outside the program.  What it streams for one request is an
  input of the model: the \<^verbatim>\<open>delta.content\<close> of each chunk (which may be \<^verbatim>\<open>None\<close>), and
  the exception with which the request or the stream fails, when it does.  The prompt
  decides only what the service is asked, so it is not part of this model.
\<close>

record stream =
  chunks :: "string option list"
  failure :: "exn option"

text \<open>\<^verbatim>\<open>chunk.choices[0].delta.content or ""\<close>\<close>

definition chunk_message :: "string option \<Rightarrow> string" where
  "chunk_message content = (case content of None \<Rightarrow> [] | Some m \<Rightarrow> m)"

text \<open>The accumulated text, \<^verbatim>\<open>"".join(collected_messages)\<close>, and what line 67 keeps of it,
  \<^verbatim>\<open>"".join(collected_messages).strip()\<close>.\<close>

definition accumulated :: "stream \<Rightarrow> string" where
  "accumulated response = concat (map chunk_message (chunks response))"

definition full_response :: "stream \<Rightarrow> string" where
  "full_response response = strip (accumulated response)"

definition call_openai :: "stream \<Rightarrow> event list \<times> (exn + string)" where
  "call_openai response =
     (let echoed = map (\<lambda>c. Echo (chunk_message c)) (chunks response)
      in case failure response of
           Some e \<Rightarrow> (echoed, Inl e)
         | None \<Rightarrow>
             if full_response response = []
             then (echoed @ [EchoEnd], Inl (Exn ''ValueError'' ''Empty response from streaming LLM''))
             else (echoed @ [EchoEnd],
                   Inr (re_sub ''true'' ''True'' (re_sub ''false'' ''False'' (full_response response)))))"

subsection \<open>\<^verbatim>\<open>execute_tool\<close>\<close>

text \<open>
  \<^verbatim>\<open>tool_name not in TOOLS\<close> hashes the name, so a list or a dictionary raises
  \<^verbatim>\<open>TypeError\<close> here, outside the \<^verbatim>\<open>try\<close>; the keys of \<^verbatim>\<open>TOOLS\<close> are strings, so no
  other scalar is a member.
\<close>

definition unhashable :: "pyval \<Rightarrow> exn" where
  "unhashable v = Exn ''TypeError'' (''unhashable type: '' @ quoted (type_name v))"

definition failed :: "string \<Rightarrow> outcome" where
  "failed msg = \<lparr>result = ''failed'', message = Scalar (KStr msg)\<rparr>"

definition execute_tool ::
  "'w registry \<Rightarrow> pyval \<Rightarrow> pyval \<Rightarrow> 'w \<Rightarrow> exn + (event list \<times> outcome \<times> 'w)" where
  "execute_tool TOOLS tool_name params w =
     (case tool_name of
        Scalar (KStr n) \<Rightarrow>
          (case map_of TOOLS n of
             None \<Rightarrow> Inr ([], failed (''Unknown tool: '' @ n), w)
           | Some tool \<Rightarrow>
               (case call_tool tool params w of
                  (Inr r, w') \<Rightarrow> Inr ([Activate n params], r, w')
                | (Inl e, w') \<Rightarrow>
                    Inr ([Activate n params],
                         failed (''Error executing '' @ n @ '': '' @ str_exn e), w')))
      | Scalar k \<Rightarrow> Inr ([], failed (''Unknown tool: '' @ py_str k), w)
      | v \<Rightarrow> Inl (unhashable v))"

subsection \<open>\<^verbatim>\<open>main\<close>\<close>

text \<open>Lines 111 to 116: the connection flag after an action.\<close>

definition update_connected :: "pyval \<Rightarrow> outcome \<Rightarrow> bool \<Rightarrow> bool" where
  "update_connected tool_name tool_result is_connected =
     (if tool_name = Scalar (KStr ''connect'')
      then (if result tool_result = ''success'' then True else is_connected)
      else if tool_name = Scalar (KStr ''disconnect'')
      then (if result tool_result = ''success'' then False else is_connected)
      else is_connected)"

text \<open>One pass of the body of \<^verbatim>\<open>for action in actions\<close>: the events printed, the flag and
  the broker state afterwards, or the exception that leaves the loop.\<close>

definition run_action ::
  "'w registry \<Rightarrow> pyval \<Rightarrow> bool \<Rightarrow> 'w \<Rightarrow> exn + (event list \<times> bool \<times> 'w)" where
  "run_action TOOLS action is_connected w =
     (case action of
        PDict d \<Rightarrow>
          (let tool_name = dict_get d ''name'' (Scalar KNone);
               params = dict_get d ''parameters'' (PDict [])
           in case execute_tool TOOLS tool_name params w of
                Inl e \<Rightarrow> Inl e
              | Inr (out, tool_result, w') \<Rightarrow>
                  Inr (out @ [ToolResult tool_name tool_result],
                       update_connected tool_name tool_result is_connected, w'))
      | v \<Rightarrow> Inl (no_get v))"

text \<open>The loop: the exception that ended it (if any), everything printed, and the state
  reached, which keeps the effects of the actions before the exception.\<close>

fun run_actions ::
  "'w registry \<Rightarrow> pyval list \<Rightarrow> bool \<Rightarrow> 'w \<Rightarrow> exn option \<times> event list \<times> bool \<times> 'w" where
  "run_actions TOOLS [] is_connected w = (None, [], is_connected, w)"
| "run_actions TOOLS (action # rest) is_connected w =
     (case run_action TOOLS action is_connected w of
        Inl e \<Rightarrow> (Some e, [], is_connected, w)
      | Inr (out, c', w') \<Rightarrow>
          (case run_actions TOOLS rest c' w' of
             (e, out', c'', w'') \<Rightarrow> (e, out @ out', c'', w'')))"

text \<open>
  The body of the \<^verbatim>\<open>try\<close> (lines 97 to 116).  \<^verbatim>\<open>eval\<close> is outside the program: its outcome
  on the reply of this turn, a value or a raised exception, is an input of the model.
\<close>

definition try_body ::
  "'w registry \<Rightarrow> exn + pyval \<Rightarrow> bool \<Rightarrow> 'w \<Rightarrow> exn option \<times> event list \<times> bool \<times> 'w" where
  "try_body TOOLS evaluated is_connected w =
     (case evaluated of
        Inl e \<Rightarrow> (Some e, [], is_connected, w)
      | Inr (PDict d) \<Rightarrow>
          (let actions = dict_get d ''actions'' (PList [])
           in if \<not> truthy actions then (None, [NoActions], is_connected, w)
              else case py_iter actions of
                     Inl e \<Rightarrow> (Some e, [], is_connected, w)
                   | Inr xs \<Rightarrow> run_actions TOOLS xs is_connected w)
      | Inr v \<Rightarrow> (Some (no_get v), [], is_connected, w))"

text \<open>The \<^verbatim>\<open>try\<close> with its handler \<^verbatim>\<open>except Exception as e\<close> (lines 96 to 118).\<close>

definition process_response ::
  "'w registry \<Rightarrow> exn + pyval \<Rightarrow> bool \<Rightarrow> 'w \<Rightarrow> event list \<times> bool \<times> 'w" where
  "process_response TOOLS evaluated is_connected w =
     (case try_body TOOLS evaluated is_connected w of
        (None, out, c', w') \<Rightarrow> (out, c', w')
      | (Some e, out, c', w') \<Rightarrow> (out @ [ErrorProcessing (str_exn e)], c', w'))"

text \<open>
  A session is run against a script of turns: the line the operator types, what the
  completion service streams for it, and what \<^verbatim>\<open>eval\<close> makes of the reply.  The loop ends
  in one of three ways: it is back at \<^verbatim>\<open>input\<close> with the script used up, it has left
  through \<^verbatim>\<open>break\<close>, or an exception has left \<^verbatim>\<open>main\<close>.
\<close>

record turn =
  user_input :: string
  response :: stream
  evaluated :: "exn + pyval"

datatype status = Reading | Exited | Raised exn

fun main_loop ::
  "'w registry \<Rightarrow> turn list \<Rightarrow> bool \<Rightarrow> 'w \<Rightarrow> event list \<times> status \<times> bool \<times> 'w" where
  "main_loop TOOLS [] is_connected w = ([], Reading, is_connected, w)"
| "main_loop TOOLS (t # rest) is_connected w =
     (if py_lower (user_input t) = ''exit'' then ([], Exited, is_connected, w)
      else case call_openai (response t) of
             (out, Inl e) \<Rightarrow> (out, Raised e, is_connected, w)
           | (out, Inr ai_response) \<Rightarrow>
               (case process_response TOOLS (evaluated t) is_connected w of
                  (out', c', w') \<Rightarrow>
                    (case main_loop TOOLS rest c' w' of
                       (out'', st, c'', w'') \<Rightarrow> (out @ out' @ out'', st, c'', w''))))"

definition main :: "'w registry \<Rightarrow> turn list \<Rightarrow> 'w \<Rightarrow> event list \<times> status \<times> bool \<times> 'w" where
  "main TOOLS script w =
     (case main_loop TOOLS script False w of
        (out, st, c, w') \<Rightarrow> (Banner # out, st, c, w'))"

section \<open>The broker tools: \<^verbatim>\<open>ib.py\<close>\<close>

text \<open>
  The module keeps one global, \<^verbatim>\<open>ib\<close>: \<^verbatim>\<open>None\<close>, or an \<^verbatim>\<open>IB\<close> object, of which the model
  keeps what \<^verbatim>\<open>ib.isConnected()\<close> answers.  The configuration read from the environment
  and the terminal at the other end are parameters: for each request of \<^verbatim>\<open>ib_insync\<close>
  the tools make, \<open>tws\<close> says what it returns or raises.  \<^verbatim>\<open>IB()\<close>, \<^verbatim>\<open>Stock\<close>,
  \<^verbatim>\<open>LimitOrder\<close> and \<^verbatim>\<open>ib.disconnect()\<close> are taken not to raise.
\<close>

type_synonym ib_global = "bool option"

record config =
  IB_HOST :: string
  IB_PORT :: int
  IB_CLIENT :: int

record tws =
  tws_connect :: "exn option"
  tws_qualifyContracts :: "pyval \<Rightarrow> pyval \<Rightarrow> pyval \<Rightarrow> exn + pyval list"
  tws_reqMktData :: "pyval \<Rightarrow> pyval \<Rightarrow> pyval \<Rightarrow> exn + pyval \<times> pyval \<times> pyval \<times> pyval"
  tws_placeOrder :: "pyval \<Rightarrow> pyval \<Rightarrow> pyval \<Rightarrow> pyval \<Rightarrow> pyval \<Rightarrow> pyval \<Rightarrow> exn + pyval \<times> pyval"
  tws_positions :: "pyval \<Rightarrow> exn + (pyval \<times> pyval \<times> pyval) list"
  tws_accountValues :: "pyval \<Rightarrow> exn + (pyval \<times> pyval \<times> pyval) list"

text \<open>\<^verbatim>\<open>ib is not None and ib.isConnected()\<close>\<close>

definition session_active :: "ib_global \<Rightarrow> bool" where
  "session_active ib = (case ib of None \<Rightarrow> False | Some isConnected \<Rightarrow> isConnected)"

definition text_response :: "string \<Rightarrow> string \<Rightarrow> outcome" where
  "text_response r m = create_response r (Scalar (KStr m))"

definition not_connected :: outcome where
  \<open>not_connected = text_response ''failed'' ''Not connected to IB TWS. Use 'connect' first.''\<close>

definition connect :: "config \<Rightarrow> tws \<Rightarrow> ib_global \<Rightarrow> (exn + outcome) \<times> ib_global" where
  "connect cfg t ib =
     (case tws_connect t of
        None \<Rightarrow>
          (Inr (text_response ''success''
                  (''Connected to IB TWS at '' @ IB_HOST cfg @ '':'' @ str_int (IB_PORT cfg)
                   @ '' with client ID '' @ str_int (IB_CLIENT cfg))),
           Some True)
      | Some e \<Rightarrow>
          (Inr (text_response ''failed'' (''Failed to connect: '' @ str_exn e)), Some False))"

definition disconnect :: "ib_global \<Rightarrow> (exn + outcome) \<times> ib_global" where
  "disconnect ib =
     (if session_active ib
      then (Inr (text_response ''success'' ''Disconnected from IB TWS''), Some False)
      else (Inr (text_response ''failed'' ''No active connection to disconnect''), ib))"

definition qualifyContracts ::
  "tws \<Rightarrow> pyval \<Rightarrow> pyval \<Rightarrow> pyval \<Rightarrow> pyval \<Rightarrow> ib_global \<Rightarrow> (exn + outcome) \<times> ib_global" where
  "qualifyContracts t symbol secType exchange currency ib =
     (if \<not> session_active ib then (Inr not_connected, ib)
      else case tws_qualifyContracts t symbol exchange currency of
             Inr (q # qs) \<Rightarrow>
               (Inr (create_response ''success'' (PDict [(KStr ''contract'', q)])), ib)
           | Inr [] \<Rightarrow> (Inr (text_response ''failed'' ''Contract qualification failed''), ib)
           | Inl e \<Rightarrow> (Inr (text_response ''failed'' (str_exn e)), ib))"

definition reqMktData ::
  "tws \<Rightarrow> pyval \<Rightarrow> pyval \<Rightarrow> pyval \<Rightarrow> pyval \<Rightarrow> ib_global \<Rightarrow> (exn + outcome) \<times> ib_global" where
  "reqMktData t symbol secType exchange currency ib =
     (if \<not> session_active ib then (Inr not_connected, ib)
      else case tws_qualifyContracts t symbol exchange currency of
             Inl e \<Rightarrow> (Inl e, ib)
           | Inr qs \<Rightarrow>
               (case tws_reqMktData t symbol exchange currency of
                  Inr (bid, ask, last_price, volume) \<Rightarrow>
                    (Inr (create_response ''success''
                            (PDict [(KStr ''symbol'', symbol), (KStr ''bid'', bid), (KStr ''ask'', ask),
                                    (KStr ''last'', last_price), (KStr ''volume'', volume)])), ib)
                | Inl e \<Rightarrow> (Inr (text_response ''failed'' (str_exn e)), ib)))"

definition placeOrder ::
  "tws \<Rightarrow> pyval \<Rightarrow> pyval \<Rightarrow> pyval \<Rightarrow> pyval \<Rightarrow> pyval \<Rightarrow> pyval \<Rightarrow> pyval \<Rightarrow> ib_global
     \<Rightarrow> (exn + outcome) \<times> ib_global" where
  "placeOrder t symbol action quantity limitPrice secType exchange currency ib =
     (if \<not> session_active ib then (Inr not_connected, ib)
      else case tws_qualifyContracts t symbol exchange currency of
             Inl e \<Rightarrow> (Inl e, ib)
           | Inr qs \<Rightarrow>
               (case tws_placeOrder t symbol exchange currency action quantity limitPrice of
                  Inr (orderId, details) \<Rightarrow>
                    (Inr (create_response ''success''
                            (PDict [(KStr ''orderId'', orderId), (KStr ''details'', details)])), ib)
                | Inl e \<Rightarrow> (Inr (text_response ''failed'' (str_exn e)), ib)))"

definition positions :: "tws \<Rightarrow> pyval \<Rightarrow> ib_global \<Rightarrow> (exn + outcome) \<times> ib_global" where
  "positions t account ib =
     (if \<not> session_active ib then (Inr not_connected, ib)
      else case tws_positions t account of
             Inr positions_list \<Rightarrow>
               (Inr (create_response ''success''
                       (PList (map (\<lambda>(symbol, position, avgCost).
                                      PDict [(KStr ''symbol'', symbol), (KStr ''quantity'', position),
                                             (KStr ''avgCost'', avgCost)])
                                   positions_list))), ib)
           | Inl e \<Rightarrow> (Inr (text_response ''failed'' (str_exn e)), ib))"

definition accountValues :: "tws \<Rightarrow> pyval \<Rightarrow> ib_global \<Rightarrow> (exn + outcome) \<times> ib_global" where
  "accountValues t account ib =
     (if \<not> session_active ib then (Inr not_connected, ib)
      else case tws_accountValues t account of
             Inr vals \<Rightarrow>
               (Inr (create_response ''success''
                       (PList (map (\<lambda>(tag, val, currency).
                                      PDict [(KStr ''key'', tag), (KStr ''value'', val),
                                             (KStr ''currency'', currency)])
                                   vals))), ib)
           | Inl e \<Rightarrow> (Inr (text_response ''failed'' (str_exn e)), ib))"

subsection \<open>The docstrings, as \<^verbatim>\<open>inspect.getdoc\<close> returns them\<close>

definition doc_text :: "string list \<Rightarrow> string" where
  "doc_text ls = py_join [CHR 0x0A] ls"

definition connect_doc :: string where
  \<open>connect_doc = doc_text
     [''Connect to IB TWS or Gateway using values from .env file.'',
      [],
      ''This tool establishes a connection to the Interactive Brokers TWS or Gateway using '',
      ''configuration values loaded from a .env file (IB_HOST, IB_PORT, IB_CLIENT).'',
      [],
      ''Returns:'',
      ''    Dict[str, Any]: A dictionary with 'result' ('success' or 'failed') and 'message' '',
      ''    describing the connection status or error.'']\<close>

definition disconnect_doc :: string where
  \<open>disconnect_doc = doc_text
     [''Disconnect from IB TWS or Gateway.'',
      [],
      ''This tool terminates the current connection to the Interactive Brokers TWS or Gateway.'',
      [],
      ''Returns:'',
      ''    Dict[str, Any]: A dictionary with 'result' ('success' or 'failed') and 'message' '',
      ''    describing the disconnection status or error.'']\<close>

definition qualifyContracts_doc :: string where
  \<open>qualifyContracts_doc = doc_text
     [''Qualify a contract by filling in missing fields.'',
      [],
      ''Args:'',
      ''    symbol (str): The trading symbol of the contract (e.g., "AAPL" for Apple Inc.).'',
      ''    secType (str, optional): Security type. Defaults to "STK" (Stock). Other options include "OPT", "FUT", etc.'',
      ''    exchange (str, optional): The exchange where the contract is traded. Defaults to "SMART" (Smart routing).'',
      ''    currency (str, optional): The currency of the contract. Defaults to "USD".'',
      [],
      ''Returns:'',
      ''    Dict[str, Any]: A dictionary with 'result' ('success' or 'failed') and 'message' '',
      ''    containing the qualified contract details or an error message.'']\<close>

definition reqMktData_doc :: string where
  \<open>reqMktData_doc = doc_text
     [''Request market data for a contract.'',
      [],
      ''Args:'',
      ''    symbol (str): The trading symbol of the contract (e.g., "AAPL" for Apple Inc.).'',
      ''    secType (str, optional): Security type. Defaults to "STK" (Stock). Other options include "OPT", "FUT", etc.'',
      ''    exchange (str, optional): The exchange where the contract is traded. Defaults to "SMART" (Smart routing).'',
      ''    currency (str, optional): The currency of the contract. Defaults to "USD".'',
      [],
      ''Returns:'',
      ''    Dict[str, Any]: A dictionary with 'result' ('success' or 'failed') and 'message' '',
      ''    containing market data (bid, ask, last, volume) or an error message.'']\<close>

definition placeOrder_doc :: string where
  \<open>placeOrder_doc = doc_text
     [''Place a limit order for a contract.'',
      [],
      ''Args:'',
      ''    symbol (str): The trading symbol of the contract (e.g., "AAPL" for Apple Inc.).'',
      ''    action (str): The order action ("BUY" or "SELL").'',
      ''    quantity (float): The number of shares or contracts to trade.'',
      ''    limitPrice (float): The limit price for the order.'',
      ''    secType (str, optional): Security type. Defaults to "STK" (Stock). Other options include "OPT", "FUT", etc.'',
      ''    exchange (str, optional): The exchange where the contract is traded. Defaults to "SMART" (Smart routing).'',
      ''    currency (str, optional): The currency of the contract. Defaults to "USD".'',
      [],
      ''Returns:'',
      ''    Dict[str, Any]: A dictionary with 'result' ('success' or 'failed') and 'message' '',
      ''    containing the order ID and details or an error message.'']\<close>

definition positions_doc :: string where
  \<open>positions_doc = doc_text
     [''Retrieve current positions for the account.'',
      [],
      ''Args:'',
      ''    account (str, optional): The account ID. If empty, uses the default account. Defaults to "".'',
      [],
      ''Returns:'',
      ''    Dict[str, Any]: A dictionary with 'result' ('success' or 'failed') and 'message' '',
      ''    containing a list of positions (symbol, quantity, avgCost) or an error message.'']\<close>

definition accountValues_doc :: string where
  \<open>accountValues_doc = doc_text
     [''Retrieve account values for the specified account.'',
      [],
      ''Args:'',
      ''    account (str, optional): The account ID. If empty, uses the default account. Defaults to "".'',
      [],
      ''Returns:'',
      ''    Dict[str, Any]: A dictionary with 'result' ('success' or 'failed') and 'message' '',
      ''    containing a list of account values (key, value, currency) or an error message.'']\<close>

subsection \<open>The registered tools\<close>

definition str_param :: "string \<Rightarrow> key option \<Rightarrow> param" where
  "str_param n d = \<lparr>pname = n, annotation = Some ''str'', default = d\<rparr>"

definition float_param :: "string \<Rightarrow> param" where
  "float_param n = \<lparr>pname = n, annotation = Some ''float'', default = None\<rparr>"

definition contract_params :: "param list" where
  "contract_params =
     [str_param ''secType'' (Some (KStr ''STK'')),
      str_param ''exchange'' (Some (KStr ''SMART'')),
      str_param ''currency'' (Some (KStr ''USD''))]"

definition connect_tool :: "config \<Rightarrow> tws \<Rightarrow> ib_global capability" where
  "connect_tool cfg t =
     \<lparr>fname = ''connect'', fmodule = ''ib'', parameters = [], doc = Some connect_doc,
      body = (\<lambda>a. connect cfg t)\<rparr>"

definition disconnect_tool :: "ib_global capability" where
  "disconnect_tool =
     \<lparr>fname = ''disconnect'', fmodule = ''ib'', parameters = [], doc = Some disconnect_doc,
      body = (\<lambda>a. disconnect)\<rparr>"

definition qualifyContracts_tool :: "tws \<Rightarrow> ib_global capability" where
  "qualifyContracts_tool t =
     \<lparr>fname = ''qualifyContracts'', fmodule = ''ib'',
      parameters = str_param ''symbol'' None # contract_params,
      doc = Some qualifyContracts_doc,
      body = (\<lambda>a. qualifyContracts t (a ''symbol'') (a ''secType'') (a ''exchange'') (a ''currency''))\<rparr>"

definition reqMktData_tool :: "tws \<Rightarrow> ib_global capability" where
  "reqMktData_tool t =
     \<lparr>fname = ''reqMktData'', fmodule = ''ib'',
      parameters = str_param ''symbol'' None # contract_params,
      doc = Some reqMktData_doc,
      body = (\<lambda>a. reqMktData t (a ''symbol'') (a ''secType'') (a ''exchange'') (a ''currency''))\<rparr>"

definition placeOrder_tool :: "tws \<Rightarrow> ib_global capability" where
  "placeOrder_tool t =
     \<lparr>fname = ''placeOrder'', fmodule = ''ib'',
      parameters = [str_param ''symbol'' None, str_param ''action'' None,
                    float_param ''quantity'', float_param ''limitPrice''] @ contract_params,
      doc = Some placeOrder_doc,
      body = (\<lambda>a. placeOrder t (a ''symbol'') (a ''action'') (a ''quantity'') (a ''limitPrice'')
                     (a ''secType'') (a ''exchange'') (a ''currency''))\<rparr>"

definition positions_tool :: "tws \<Rightarrow> ib_global capability" where
  "positions_tool t =
     \<lparr>fname = ''positions'', fmodule = ''ib'', parameters = [str_param ''account'' (Some (KStr []))],
      doc = Some positions_doc,
      body = (\<lambda>a. positions t (a ''account''))\<rparr>"

definition accountValues_tool :: "tws \<Rightarrow> ib_global capability" where
  "accountValues_tool t =
     \<lparr>fname = ''accountValues'', fmodule = ''ib'', parameters = [str_param ''account'' (Some (KStr []))],
      doc = Some accountValues_doc,
      body = (\<lambda>a. accountValues t (a ''account''))\<rparr>"

text \<open>\<^verbatim>\<open>TOOLS\<close>, in the order the module fills it.\<close>

definition TOOLS :: "config \<Rightarrow> tws \<Rightarrow> ib_global registry" where
  "TOOLS cfg t =
     [(''connect'', connect_tool cfg t),
      (''disconnect'', disconnect_tool),
      (''qualifyContracts'', qualifyContracts_tool t),
      (''reqMktData'', reqMktData_tool t),
      (''placeOrder'', placeOrder_tool t),
      (''positions'', positions_tool t),
      (''accountValues'', accountValues_tool t)]"

subsection \<open>A sample environment\<close>

text \<open>The configuration \<^verbatim>\<open>ib.py\<close> falls back to when the environment sets nothing, and a
  terminal that accepts the connection and answers every request.\<close>

definition default_config :: config where
  "default_config = \<lparr>IB_HOST = ''127.0.0.1'', IB_PORT = 7497, IB_CLIENT = 1\<rparr>"

definition sample_tws :: tws where
  "sample_tws =
     \<lparr>tws_connect = None,
      tws_qualifyContracts =
        (\<lambda>symbol exchange currency.
           Inr [PDict [(KStr ''symbol'', symbol), (KStr ''exchange'', exchange),
                       (KStr ''currency'', currency)]]),
      tws_reqMktData =
        (\<lambda>symbol exchange currency.
           Inr (Scalar (KInt 189), Scalar (KInt 190), Scalar (KInt 189), Scalar (KInt 52000))),
      tws_placeOrder =
        (\<lambda>symbol exchange currency action quantity limitPrice.
           Inr (Scalar (KInt 1),
                PDict [(KStr ''action'', action), (KStr ''totalQuantity'', quantity),
                       (KStr ''lmtPrice'', limitPrice)])),
      tws_positions = (\<lambda>account. Inr []),
      tws_accountValues = (\<lambda>account. Inr [])\<rparr>"

section \<open>What the specification says, in its own words\<close>

text \<open>
  Boolean normalisation (specification, 4.3): wherever \<^verbatim>\<open>false\<close> occurs in the text its first
  letter becomes \<^verbatim>\<open>F\<close>, wherever \<^verbatim>\<open>true\<close> occurs its first letter becomes \<^verbatim>\<open>T\<close>, and every
  other character stays what and where it was.
\<close>

definition capitalised_at :: "string \<Rightarrow> nat \<Rightarrow> char" where
  "capitalised_at t i =
     (if prefix ''false'' (drop i t) then CHR ''F''
      else if prefix ''true'' (drop i t) then CHR ''T''
      else t ! i)"

definition capitalise_booleans :: "string \<Rightarrow> string" where
  "capitalise_booleans t = map (capitalised_at t) [0..<length t]"






section \<open>Boolean normalisation of the reply\<close>

lemma prefix_drop_nth:
  "i \<le> length s \<Longrightarrow>
   prefix p (drop i s) \<longleftrightarrow> i + length p \<le> length s \<and> (\<forall>k<length p. s ! (i + k) = p ! k)"
proof (induction p arbitrary: i)
  case Nil
  then show ?case by simp
next
  case (Cons a q)
  show ?case
  proof (cases "i < length s")
    case False
    with Cons.prems show ?thesis by simp
  next
    case True
    then have d: "drop i s = s ! i # drop (Suc i) s"
      by (simp add: Cons_nth_drop_Suc)
    have "(\<forall>k<Suc (length q). s ! (i + k) = (a # q) ! k)
          \<longleftrightarrow> s ! i = a \<and> (\<forall>k<length q. s ! (Suc i + k) = q ! k)"
      by (auto simp: less_Suc_eq_0_disj)
    with Cons.IH [of "Suc i"] d True show ?thesis
      by auto
  qed
qed

lemma prefix_Cons_drop_nth:
  assumes "i < length t" and "prefix (a # q) (drop i t)"
  shows "t ! i = a"
proof -
  have "drop i t = t ! i # drop (Suc i) t"
    using assms(1) by (simp add: Cons_nth_drop_Suc)
  with assms(2) show ?thesis by simp
qed

text \<open>A replacement as long as the pattern keeps the length of the text.\<close>

lemma re_sub_length:
  "length repl = length pat \<Longrightarrow> length (re_sub pat repl s) = length s"
proof (induction pat repl s rule: re_sub.induct)
  case (1 pat repl)
  show ?case by (simp add: re_sub.simps)
next
  case (2 pat repl c cs)
  show ?case
  proof (cases "pat \<noteq> [] \<and> prefix pat (c # cs)")
    case True
    then have "length pat \<le> length (c # cs)"
      using prefix_length_le by blast
    with True 2 show ?thesis
      by (simp add: re_sub.simps)
  next
    case False
    with 2 show ?thesis by (auto simp add: re_sub.simps)
  qed
qed

text \<open>
  When the first letter of the pattern does not occur again in it and the replacement
  differs from the pattern in that letter only, the scan changes exactly the first letter
  of every occurrence.
\<close>

lemma re_sub_nth:
  assumes "a \<notin> set q"
  shows "i < length s \<Longrightarrow>
         re_sub (a # q) (b # q) s ! i = (if prefix (a # q) (drop i s) then b else s ! i)"
proof (induction "a # q" "b # q" s arbitrary: i rule: re_sub.induct)
  case 1
  then show ?case by simp
next
  case (2 c cs)
  show ?case
  proof (cases "prefix (a # q) (c # cs)")
    case True
    then obtain rest where s: "c # cs = (a # q) @ rest"
      by (auto simp: prefix_def)
    then have c: "c = a" and cs: "cs = q @ rest" by simp_all
    have res: "re_sub (a # q) (b # q) (c # cs) = (b # q) @ re_sub (a # q) (b # q) rest"
      using True s by (simp add: re_sub.simps)
    consider "i = 0" | "0 < i" "i < Suc (length q)" | "Suc (length q) \<le> i" by linarith
    then show ?thesis
    proof cases
      case 1
      with True res show ?thesis by simp
    next
      case 2
      then obtain j where j: "i = Suc j" "j < length q" by (cases i) auto
      have "drop i (c # cs) = q ! j # drop (Suc j) q @ rest"
        using j cs by (simp add: Cons_nth_drop_Suc)
      moreover have "q ! j \<noteq> a" using assms j by auto
      ultimately have "\<not> prefix (a # q) (drop i (c # cs))" by simp
      moreover have "((b # q) @ re_sub (a # q) (b # q) rest) ! i = q ! j"
        using j by (simp add: nth_append)
      moreover have "(c # cs) ! i = q ! j" using j cs by (simp add: nth_append)
      ultimately show ?thesis using res by simp
    next
      case 3
      then obtain j where j: "i = Suc (length q) + j" by (metis le_Suc_ex)
      have jl: "j < length rest" using "2.prems" j cs by simp
      have ih: "re_sub (a # q) (b # q) rest ! j
                = (if prefix (a # q) (drop j rest) then b else rest ! j)"
        using "2.hyps"(1) [of j] True s jl by simp
      have "((b # q) @ re_sub (a # q) (b # q) rest) ! i = re_sub (a # q) (b # q) rest ! j"
        using j by (simp add: nth_append)
      moreover have "drop i (c # cs) = drop j rest" using j cs by simp
      moreover have "(c # cs) ! i = rest ! j" using j cs by (simp add: nth_append)
      ultimately show ?thesis using res ih by simp
    qed
  next
    case False
    then have res: "re_sub (a # q) (b # q) (c # cs) = c # re_sub (a # q) (b # q) cs"
      by (auto simp: re_sub.simps)
    show ?thesis
    proof (cases i)
      case 0
      with False res show ?thesis by auto
    next
      case (Suc j)
      with "2.prems" have "j < length cs" by simp
      with "2.hyps"(2) [of j] False Suc res show ?thesis by auto
    qed
  qed
qed

text \<open>The first substitution neither makes nor breaks an occurrence of \<^verbatim>\<open>true\<close>.\<close>

lemma true_prefix_after_false:
  assumes "i \<le> length t"
  shows "prefix ''true'' (drop i (re_sub ''false'' ''False'' t)) \<longleftrightarrow> prefix ''true'' (drop i t)"
proof -
  let ?s = "re_sub ''false'' ''False'' t"
  have len: "length ?s = length t" by (simp add: re_sub_length)
  have keep: "(?s ! j = x) = (t ! j = x)"
    if "j < length t" "x \<noteq> CHR ''F''" "x \<noteq> CHR ''f''" for j x
  proof (cases "prefix ''false'' (drop j t)")
    case True
    then have "t ! j = CHR ''f''" using that(1) by (rule prefix_Cons_drop_nth [rotated])
    moreover have "?s ! j = CHR ''F''" using True that(1) by (simp add: re_sub_nth)
    ultimately show ?thesis using that by simp
  next
    case False
    then show ?thesis using that(1) by (simp add: re_sub_nth)
  qed
  have tr: "prefix ''true'' (drop i u) \<longleftrightarrow>
            i + 4 \<le> length u \<and> u ! i = CHR ''t'' \<and> u ! (i + 1) = CHR ''r''
            \<and> u ! (i + 2) = CHR ''u'' \<and> u ! (i + 3) = CHR ''e''"
    if "i \<le> length u" for u :: string
    using that by (auto simp add: prefix_drop_nth All_less_Suc eval_nat_numeral)
  show ?thesis
  proof (cases "i + 4 \<le> length t")
    case False
    with assms len show ?thesis by (simp add: tr)
  next
    case True
    then have "i < length t" "i + 1 < length t" "i + 2 < length t" "i + 3 < length t" by simp_all
    then have "(?s ! i = CHR ''t'') = (t ! i = CHR ''t'')"
        "(?s ! (i + 1) = CHR ''r'') = (t ! (i + 1) = CHR ''r'')"
        "(?s ! (i + 2) = CHR ''u'') = (t ! (i + 2) = CHR ''u'')"
        "(?s ! (i + 3) = CHR ''e'') = (t ! (i + 3) = CHR ''e'')"
      by (simp_all add: keep)
    with assms len show ?thesis by (simp add: tr)
  qed
qed

lemma re_sub_booleans:
  "re_sub ''true'' ''True'' (re_sub ''false'' ''False'' t) = capitalise_booleans t"
proof (rule nth_equalityI)
  show "length (re_sub ''true'' ''True'' (re_sub ''false'' ''False'' t)) = length (capitalise_booleans t)"
    by (simp add: re_sub_length capitalise_booleans_def)
next
  fix i
  assume "i < length (re_sub ''true'' ''True'' (re_sub ''false'' ''False'' t))"
  then have i: "i < length t" by (simp add: re_sub_length)
  have "re_sub ''true'' ''True'' (re_sub ''false'' ''False'' t) ! i
        = (if prefix ''true'' (drop i t) then CHR ''T'' else re_sub ''false'' ''False'' t ! i)"
    using i by (simp add: re_sub_nth re_sub_length true_prefix_after_false)
  also have "\<dots> = capitalised_at t i"
  proof (cases "prefix ''true'' (drop i t)")
    case True
    then have "t ! i = CHR ''t''" using i by (rule prefix_Cons_drop_nth [rotated])
    then have "\<not> prefix ''false'' (drop i t)"
      using prefix_Cons_drop_nth [OF i, of "CHR ''f''" "''alse''"] by auto
    with True show ?thesis by (simp add: capitalised_at_def)
  next
    case False
    then show ?thesis using i by (simp add: capitalised_at_def re_sub_nth)
  qed
  finally show "re_sub ''true'' ''True'' (re_sub ''false'' ''False'' t) ! i = capitalise_booleans t ! i"
    using i by (simp add: capitalise_booleans_def)
qed

text \<open>
  Claim C8, as the code has it.  Line 67 strips the accumulated text before anything else.
  When the service did not fail and the accumulated text without its leading and trailing
  whitespace is not empty, \<^verbatim>\<open>call_openai\<close> returns that trimmed text with the first letter of
  every occurrence of \<^verbatim>\<open>false\<close> and of \<^verbatim>\<open>true\<close> capitalised, wherever the occurrence is, and
  with every other character of the trimmed text unchanged.
\<close>

theorem call_openai_capitalises_booleans:
  assumes "failure r = None" and "strip (accumulated r) \<noteq> []"
  shows "snd (call_openai r) = Inr (capitalise_booleans (strip (accumulated r)))"
  using assms by (simp add: call_openai_def full_response_def Let_def re_sub_booleans)

theorem call_openai_capitalises_booleans_witness:
  "failure \<lparr>chunks = [Some '' {'ok': tr'', None, Some ''ue, 'note': 'false'} ''], failure = None\<rparr> = None
   \<and> strip (accumulated \<lparr>chunks = [Some '' {'ok': tr'', None, Some ''ue, 'note': 'false'} ''], failure = None\<rparr>)
       \<noteq> []
   \<and> strip (accumulated \<lparr>chunks = [Some '' {'ok': tr'', None, Some ''ue, 'note': 'false'} ''], failure = None\<rparr>)
       = ''{'ok': true, 'note': 'false'}''
   \<and> snd (call_openai \<lparr>chunks = [Some '' {'ok': tr'', None, Some ''ue, 'note': 'false'} ''], failure = None\<rparr>)
       = Inr ''{'ok': True, 'note': 'False'}''"
proof -
  let ?r = "\<lparr>chunks = [Some '' {'ok': tr'', None, Some ''ue, 'note': 'false'} ''], failure = None\<rparr>"
  have f: "failure ?r = None" by simp
  have full: "strip (accumulated ?r) = ''{'ok': true, 'note': 'false'}''" by code_simp
  then have ne: "strip (accumulated ?r) \<noteq> []" by simp
  have cap: "capitalise_booleans ''{'ok': true, 'note': 'false'}'' = ''{'ok': True, 'note': 'False'}''"
    by code_simp
  show ?thesis
    using f ne full call_openai_capitalises_booleans [OF f ne] by (simp only: full cap simp_thms)
qed

text \<open>
  The claim as stated has the accumulated text itself returned, with no character changed
  but the capitalised ones.  For the single chunk \<^verbatim>\<open>" true "\<close> that would be \<^verbatim>\<open>" True "\<close>; the
  code returns \<^verbatim>\<open>"True"\<close>, the two spaces gone.
\<close>

theorem accumulated_text_is_trimmed_counterexample:
  "accumulated \<lparr>chunks = [Some '' true ''], failure = None\<rparr> = '' true ''
   \<and> capitalise_booleans '' true '' = '' True ''
   \<and> snd (call_openai \<lparr>chunks = [Some '' true ''], failure = None\<rparr>) = Inr ''True''
   \<and> snd (call_openai \<lparr>chunks = [Some '' true ''], failure = None\<rparr>)
       \<noteq> Inr (capitalise_booleans (accumulated \<lparr>chunks = [Some '' true ''], failure = None\<rparr>))"
proof -
  have a: "accumulated \<lparr>chunks = [Some '' true ''], failure = None\<rparr> = '' true ''"
    by code_simp
  have b: "capitalise_booleans '' true '' = '' True ''"
    by code_simp
  have c: "snd (call_openai \<lparr>chunks = [Some '' true ''], failure = None\<rparr>) = Inr ''True''"
    by code_simp
  have d: "''True'' \<noteq> '' True ''" by simp
  from a b c d show ?thesis by (simp only: simp_thms sum.inject)
qed

section \<open>Parsing the reply\<close>

text \<open>
  Claim C1, as the code has it.  A reply that evaluates to a dictionary without the key
  \<^verbatim>\<open>actions\<close> raises nothing: \<^verbatim>\<open>response_data.get("actions", [])\<close> supplies the empty list,
  the turn prints that no actions were returned, runs no tool and leaves the connection
  flag and the broker state as they were.
\<close>

theorem missing_actions_yields_empty_plan:
  assumes "map_of d (KStr ''actions'') = None"
  shows "try_body reg (Inr (PDict d)) c w = (None, [NoActions], c, w)
         \<and> process_response reg (Inr (PDict d)) c w = ([NoActions], c, w)"
  using assms by (simp add: try_body_def process_response_def dict_get_def)

theorem missing_actions_yields_empty_plan_witness:
  "map_of [(KStr ''reply'', Scalar (KStr ''hello''))] (KStr ''actions'') = None
   \<and> process_response (TOOLS default_config sample_tws)
        (Inr (PDict [(KStr ''reply'', Scalar (KStr ''hello''))])) True (Some True)
       = ([NoActions], True, Some True)"
proof -
  have h: "map_of [(KStr ''reply'', Scalar (KStr ''hello''))] (KStr ''actions'') = None"
    by simp
  show ?thesis
    using h missing_actions_yields_empty_plan [OF h, of "TOOLS default_config sample_tws" True "Some True"]
    by simp
qed

text \<open>The claim as stated asks for an error here; the code raises none.\<close>

theorem missing_actions_counterexample:
  "try_body (TOOLS default_config sample_tws)
     (Inr (PDict [(KStr ''reply'', Scalar (KStr ''hello''))])) False None
   = (None, [NoActions], False, None)"
  by (simp add: try_body_def dict_get_def)

text \<open>
  Claim C3, as the code has it.  An item of \<^verbatim>\<open>actions\<close> that is a dictionary without the key
  \<^verbatim>\<open>name\<close> raises nothing either: \<^verbatim>\<open>action.get("name")\<close> is \<^verbatim>\<open>None\<close>, the item is dispatched
  under that name, \<^verbatim>\<open>execute_tool\<close> answers with the failed outcome
  \<^verbatim>\<open>Unknown tool: None\<close> without calling any tool, and the loop goes on with the remaining
  actions.
\<close>

theorem nameless_action_is_dispatched:
  assumes "map_of d (KStr ''name'') = None"
  shows "run_action reg (PDict d) c w
           = Inr ([ToolResult (Scalar KNone) (failed ''Unknown tool: None'')], c, w)
         \<and> run_actions reg (PDict d # rest) c w
           = (case run_actions reg rest c w of
                (e, out, st) \<Rightarrow> (e, ToolResult (Scalar KNone) (failed ''Unknown tool: None'') # out, st))"
proof -
  have "run_action reg (PDict d) c w
          = Inr ([ToolResult (Scalar KNone) (failed ''Unknown tool: None'')], c, w)"
    using assms
    by (simp add: run_action_def dict_get_def execute_tool_def update_connected_def failed_def)
  then show ?thesis by (simp split: prod.splits)
qed

theorem nameless_action_is_dispatched_witness:
  "map_of [(KStr ''parameters'', PDict [])] (KStr ''name'') = None
   \<and> run_actions (TOOLS default_config sample_tws)
        [PDict [(KStr ''parameters'', PDict [])],
         PDict [(KStr ''name'', Scalar (KStr ''disconnect'')), (KStr ''parameters'', PDict [])]]
        True (Some True)
       = (None,
          [ToolResult (Scalar KNone) \<lparr>result = ''failed'', message = Scalar (KStr ''Unknown tool: None'')\<rparr>,
           Activate ''disconnect'' (PDict []),
           ToolResult (Scalar (KStr ''disconnect''))
             \<lparr>result = ''success'', message = Scalar (KStr ''Disconnected from IB TWS'')\<rparr>],
          False, Some False)"
proof -
  let ?a = "PDict [(KStr ''name'', Scalar (KStr ''disconnect'')), (KStr ''parameters'', PDict [])]"
  have h: "map_of [(KStr ''parameters'', PDict [])] (KStr ''name'') = None" by simp
  have r: "run_actions (TOOLS default_config sample_tws) [?a] True (Some True)
           = (None,
              [Activate ''disconnect'' (PDict []),
               ToolResult (Scalar (KStr ''disconnect''))
                 \<lparr>result = ''success'', message = Scalar (KStr ''Disconnected from IB TWS'')\<rparr>],
              False, Some False)"
    by code_simp
  show ?thesis
    using h nameless_action_is_dispatched
            [OF h, of "TOOLS default_config sample_tws" True "Some True" "[?a]"]
    by (simp only: r failed_def prod.case simp_thms)
qed

text \<open>The claim as stated asks for an error here; the plan with the nameless item runs to
  its end.\<close>

theorem nameless_action_counterexample:
  "try_body (TOOLS default_config sample_tws)
     (Inr (PDict [(KStr ''actions'', PList [PDict [(KStr ''parameters'', PDict [])]])])) False None
   = (None,
      [ToolResult (Scalar KNone) \<lparr>result = ''failed'', message = Scalar (KStr ''Unknown tool: None'')\<rparr>],
      False, None)"
  by code_simp

section \<open>The session loop\<close>

text \<open>
  What the handler of lines 117 and 118 does.  In a turn that is not the exit sentinel and
  for which \<^verbatim>\<open>call_openai\<close> returned a reply, every exception raised inside the \<^verbatim>\<open>try\<close> (by
  \<^verbatim>\<open>eval\<close>,
  by the walk over the plan or by \<^verbatim>\<open>execute_tool\<close>) is caught and printed as
  \<^verbatim>\<open>Error processing response: ...\<close>, and the loop goes on with the rest of the script from
  the state reached before the exception; with the script used up it is back at \<^verbatim>\<open>input\<close>.
\<close>

lemma parse_and_dispatch_errors_are_caught:
  assumes "py_lower (user_input t) \<noteq> ''exit''"
    and "call_openai (response t) = (out, Inr ai_response)"
    and "try_body reg (evaluated t) c w = (Some e, out', c', w')"
  shows "main_loop reg (t # rest) c w =
           (case main_loop reg rest c' w' of
              (out'', st, c'', w'') \<Rightarrow>
                (out @ out' @ [ErrorProcessing (str_exn e)] @ out'', st, c'', w''))"
  using assms by (simp add: process_response_def split: prod.splits)

lemma parse_and_dispatch_errors_are_caught_example:
  "py_lower (user_input \<lparr>user_input = ''Buy AAPL'', response = \<lparr>chunks = [Some ''Sure, buying.''], failure = None\<rparr>,
                         evaluated = Inl (Exn ''SyntaxError'' ''invalid syntax'')\<rparr>) \<noteq> ''exit''
   \<and> call_openai (response \<lparr>user_input = ''Buy AAPL'', response = \<lparr>chunks = [Some ''Sure, buying.''], failure = None\<rparr>,
                         evaluated = Inl (Exn ''SyntaxError'' ''invalid syntax'')\<rparr>)
       = ([Echo ''Sure, buying.'', EchoEnd], Inr ''Sure, buying.'')
   \<and> try_body (TOOLS default_config sample_tws)
        (evaluated \<lparr>user_input = ''Buy AAPL'', response = \<lparr>chunks = [Some ''Sure, buying.''], failure = None\<rparr>,
                         evaluated = Inl (Exn ''SyntaxError'' ''invalid syntax'')\<rparr>) False None
       = (Some (Exn ''SyntaxError'' ''invalid syntax''), [], False, None)
   \<and> main_loop (TOOLS default_config sample_tws)
        [\<lparr>user_input = ''Buy AAPL'', response = \<lparr>chunks = [Some ''Sure, buying.''], failure = None\<rparr>,
                         evaluated = Inl (Exn ''SyntaxError'' ''invalid syntax'')\<rparr>] False None
       = ([Echo ''Sure, buying.'', EchoEnd, ErrorProcessing ''invalid syntax''], Reading, False, None)"
proof -
  let ?t = "\<lparr>user_input = ''Buy AAPL'', response = \<lparr>chunks = [Some ''Sure, buying.''], failure = None\<rparr>,
             evaluated = Inl (Exn ''SyntaxError'' ''invalid syntax'')\<rparr>"
  have a: "py_lower (user_input ?t) \<noteq> ''exit''" by code_simp
  have b: "call_openai (response ?t) = ([Echo ''Sure, buying.'', EchoEnd], Inr ''Sure, buying.'')"
    by code_simp
  have c: "try_body (TOOLS default_config sample_tws) (evaluated ?t) False None
           = (Some (Exn ''SyntaxError'' ''invalid syntax''), [], False, None)"
    by (simp add: try_body_def)
  show ?thesis
    using a b c parse_and_dispatch_errors_are_caught [OF a b c, of "[]"] by simp
qed

text \<open>
  Claim C2 says that no error of a turn ends the session, the empty response included.  The
  code misses that case: \<^verbatim>\<open>call_openai\<close> is awaited on line 95, one line above the \<^verbatim>\<open>try\<close>,
  so for a reply that is empty after stripping the \<^verbatim>\<open>ValueError\<close> of line 69 leaves \<^verbatim>\<open>main\<close>:
  the session ends with that exception and the second line of the operator is never read.
\<close>

theorem empty_response_ends_session:
  "main (TOOLS default_config sample_tws)
     [\<lparr>user_input = ''price of AAPL?'', response = \<lparr>chunks = [Some '' '', None], failure = None\<rparr>,
       evaluated = Inl (Exn ''SyntaxError'' ''invalid syntax'')\<rparr>,
      \<lparr>user_input = ''Disconnect'', response = \<lparr>chunks = [Some ''{'actions': []}''], failure = None\<rparr>,
       evaluated = Inr (PDict [(KStr ''actions'', PList [])])\<rparr>] None
   = ([Banner, Echo '' '', Echo [], EchoEnd],
      Raised (Exn ''ValueError'' ''Empty response from streaming LLM''), False, None)"
  by code_simp

section \<open>Dispatch\<close>

text \<open>
  Claim C4.  After an action has been executed, the connection flag is true if the name is
  \<^verbatim>\<open>connect\<close> and the outcome is \<^verbatim>\<open>success\<close>, false if the name is \<^verbatim>\<open>disconnect\<close> and the
  outcome is \<^verbatim>\<open>success\<close>, and what it was before in every other case.
\<close>

theorem connection_flag_rule:
  assumes "run_action reg (PDict d) c w = Inr (out, c', w')"
  shows "\<exists>ev r. execute_tool reg (dict_get d ''name'' (Scalar KNone))
                  (dict_get d ''parameters'' (PDict [])) w = Inr (ev, r, w')
               \<and> c' = (if dict_get d ''name'' (Scalar KNone) = Scalar (KStr ''connect'')
                           \<and> result r = ''success'' then True
                        else if dict_get d ''name'' (Scalar KNone) = Scalar (KStr ''disconnect'')
                           \<and> result r = ''success'' then False
                        else c)"
proof -
  let ?name = "dict_get d ''name'' (Scalar KNone)"
  let ?params = "dict_get d ''parameters'' (PDict [])"
  from assms obtain ev r where
    ex: "execute_tool reg ?name ?params w = Inr (ev, r, w')"
    and c': "c' = update_connected ?name r c"
    by (auto simp: run_action_def Let_def split: sum.splits prod.splits)
  have "update_connected ?name r c
        = (if ?name = Scalar (KStr ''connect'') \<and> result r = ''success'' then True
           else if ?name = Scalar (KStr ''disconnect'') \<and> result r = ''success'' then False
           else c)"
    by (simp add: update_connected_def)
  with ex c' show ?thesis by blast
qed

theorem connection_flag_rule_witness:
  "run_action (TOOLS default_config sample_tws)
     (PDict [(KStr ''name'', Scalar (KStr ''disconnect'')), (KStr ''parameters'', PDict [])])
     True (Some True)
   = Inr ([Activate ''disconnect'' (PDict []),
           ToolResult (Scalar (KStr ''disconnect''))
             \<lparr>result = ''success'', message = Scalar (KStr ''Disconnected from IB TWS'')\<rparr>],
          False, Some False)
   \<and> (\<exists>ev r. execute_tool (TOOLS default_config sample_tws) (Scalar (KStr ''disconnect'')) (PDict [])
                 (Some True) = Inr (ev, r, Some False)
              \<and> result r = ''success'')"
proof -
  let ?d = "[(KStr ''name'', Scalar (KStr ''disconnect'')), (KStr ''parameters'', PDict [])]"
  have h: "run_action (TOOLS default_config sample_tws) (PDict ?d) True (Some True)
           = Inr ([Activate ''disconnect'' (PDict []),
                   ToolResult (Scalar (KStr ''disconnect''))
                     \<lparr>result = ''success'', message = Scalar (KStr ''Disconnected from IB TWS'')\<rparr>],
                  False, Some False)"
    by code_simp
  have n: "dict_get ?d ''name'' (Scalar KNone) = Scalar (KStr ''disconnect'')"
    and p: "dict_get ?d ''parameters'' (PDict []) = PDict []"
    by (simp_all add: dict_get_def)
  from connection_flag_rule [OF h] obtain ev r where
    "execute_tool (TOOLS default_config sample_tws) (Scalar (KStr ''disconnect'')) (PDict [])
       (Some True) = Inr (ev, r, Some False)"
    and "False = (if Scalar (KStr ''disconnect'') = Scalar (KStr ''connect'') \<and> result r = ''success''
                  then True
                  else if Scalar (KStr ''disconnect'') = Scalar (KStr ''disconnect'')
                          \<and> result r = ''success'' then False else True)"
    unfolding n p by blast
  then have "\<exists>ev r. execute_tool (TOOLS default_config sample_tws) (Scalar (KStr ''disconnect''))
                 (PDict []) (Some True) = Inr (ev, r, Some False) \<and> result r = ''success''"
    by (auto split: if_splits)
  with h show ?thesis by (simp only: simp_thms)
qed

text \<open>
  Claim C5.  An action whose name is not a key of the registry gets the outcome
  \<^verbatim>\<open>{failed, "Unknown tool: <name>"}\<close>; no tool is called (nothing is printed by
  \<^verbatim>\<open>execute_tool\<close>, the broker state is untouched, whatever the registered bodies are), and
  the loop goes on with the remaining actions from the same flag and state.
\<close>

theorem unknown_tool_outcome:
  assumes "dict_get d ''name'' (Scalar KNone) = Scalar (KStr n)"
    and "map_of reg n = None"
  shows "execute_tool reg (Scalar (KStr n)) params w
           = Inr ([], \<lparr>result = ''failed'', message = Scalar (KStr (''Unknown tool: '' @ n))\<rparr>, w)
         \<and> run_actions reg (PDict d # rest) c w
           = (case run_actions reg rest c w of
                (e, out, st) \<Rightarrow>
                  (e, ToolResult (Scalar (KStr n))
                        \<lparr>result = ''failed'', message = Scalar (KStr (''Unknown tool: '' @ n))\<rparr> # out,
                   st))"
proof -
  have ex: "execute_tool reg (Scalar (KStr n)) params w
              = Inr ([], \<lparr>result = ''failed'', message = Scalar (KStr (''Unknown tool: '' @ n))\<rparr>, w)"
    for params
    using assms(2) by (simp add: execute_tool_def failed_def)
  have "run_action reg (PDict d) c w
          = Inr ([ToolResult (Scalar (KStr n))
                    \<lparr>result = ''failed'', message = Scalar (KStr (''Unknown tool: '' @ n))\<rparr>], c, w)"
    using assms(1) by (simp add: run_action_def ex update_connected_def Let_def)
  then show ?thesis using ex by (simp split: prod.splits)
qed

theorem unknown_tool_outcome_witness:
  "dict_get [(KStr ''name'', Scalar (KStr ''bogus''))] ''name'' (Scalar KNone) = Scalar (KStr ''bogus'')
   \<and> map_of (TOOLS default_config sample_tws) ''bogus'' = None
   \<and> run_actions (TOOLS default_config sample_tws)
        [PDict [(KStr ''name'', Scalar (KStr ''bogus''))],
         PDict [(KStr ''name'', Scalar (KStr ''positions''))]] True (Some True)
       = (None,
          [ToolResult (Scalar (KStr ''bogus''))
             \<lparr>result = ''failed'', message = Scalar (KStr ''Unknown tool: bogus'')\<rparr>,
           Activate ''positions'' (PDict []),
           ToolResult (Scalar (KStr ''positions'')) \<lparr>result = ''success'', message = PList []\<rparr>],
          True, Some True)"
proof -
  let ?a = "PDict [(KStr ''name'', Scalar (KStr ''positions''))]"
  have h1: "dict_get [(KStr ''name'', Scalar (KStr ''bogus''))] ''name'' (Scalar KNone)
            = Scalar (KStr ''bogus'')"
    by (simp add: dict_get_def)
  have h2: "map_of (TOOLS default_config sample_tws) ''bogus'' = None"
    by (simp add: TOOLS_def)
  have r: "run_actions (TOOLS default_config sample_tws) [?a] True (Some True)
           = (None,
              [Activate ''positions'' (PDict []),
               ToolResult (Scalar (KStr ''positions'')) \<lparr>result = ''success'', message = PList []\<rparr>],
              True, Some True)"
    by code_simp
  show ?thesis
    using h1 h2 unknown_tool_outcome [OF h1 h2, of "PDict []" "Some True" "[?a]" True]
    by (simp only: r prod.case simp_thms append.simps)
qed

text \<open>
  Claim C6.  When the call \<^verbatim>\<open>tool(**params)\<close> of a registered tool raises, \<^verbatim>\<open>execute_tool\<close>
  returns the outcome \<^verbatim>\<open>{failed, "Error executing <name>: <message>"}\<close>, the loop goes on with
  the remaining actions, and for a registered name \<^verbatim>\<open>execute_tool\<close> never raises, whatever
  the parameters and the state.
\<close>

theorem capability_error_becomes_outcome:
  assumes "dict_get d ''name'' (Scalar KNone) = Scalar (KStr n)"
    and "dict_get d ''parameters'' (PDict []) = params"
    and "map_of reg n = Some tool"
    and "call_tool tool params w = (Inl e, w')"
  shows "execute_tool reg (Scalar (KStr n)) params w
           = Inr ([Activate n params],
                  \<lparr>result = ''failed'',
                   message = Scalar (KStr (''Error executing '' @ n @ '': '' @ str_exn e))\<rparr>, w')
         \<and> run_actions reg (PDict d # rest) c w
           = (case run_actions reg rest c w' of
                (e', out, st) \<Rightarrow>
                  (e', Activate n params
                       # ToolResult (Scalar (KStr n))
                           \<lparr>result = ''failed'',
                            message = Scalar (KStr (''Error executing '' @ n @ '': '' @ str_exn e))\<rparr>
                       # out,
                   st))
         \<and> (\<forall>p v. \<exists>x. execute_tool reg (Scalar (KStr n)) p v = Inr x)"
proof -
  have ex: "execute_tool reg (Scalar (KStr n)) params w
              = Inr ([Activate n params],
                     \<lparr>result = ''failed'',
                      message = Scalar (KStr (''Error executing '' @ n @ '': '' @ str_exn e))\<rparr>, w')"
    using assms(3,4) by (simp add: execute_tool_def failed_def)
  have "run_action reg (PDict d) c w
          = Inr ([Activate n params,
                  ToolResult (Scalar (KStr n))
                    \<lparr>result = ''failed'',
                     message = Scalar (KStr (''Error executing '' @ n @ '': '' @ str_exn e))\<rparr>], c, w')"
    using assms(1,2) by (simp add: run_action_def ex update_connected_def Let_def)
  then have loop: "run_actions reg (PDict d # rest) c w
           = (case run_actions reg rest c w' of
                (e', out, st) \<Rightarrow>
                  (e', Activate n params
                       # ToolResult (Scalar (KStr n))
                           \<lparr>result = ''failed'',
                            message = Scalar (KStr (''Error executing '' @ n @ '': '' @ str_exn e))\<rparr>
                       # out,
                   st))"
    by (simp split: prod.splits)
  have "\<exists>x. execute_tool reg (Scalar (KStr n)) p v = Inr x" for p v
    using assms(3) by (simp add: execute_tool_def split: prod.splits sum.splits)
  with ex loop show ?thesis by blast
qed

theorem capability_error_becomes_outcome_witness:
  "dict_get [(KStr ''name'', Scalar (KStr ''disconnect'')),
             (KStr ''parameters'', PDict [(KStr ''force'', Scalar (KBool True))])]
     ''name'' (Scalar KNone) = Scalar (KStr ''disconnect'')
   \<and> map_of (TOOLS default_config sample_tws) ''disconnect'' = Some disconnect_tool
   \<and> call_tool disconnect_tool (PDict [(KStr ''force'', Scalar (KBool True))]) (Some True)
       = (Inl (Exn ''TypeError''
                 (''disconnect() got an unexpected keyword argument '' @ quoted ''force'')),
          Some True)
   \<and> run_actions (TOOLS default_config sample_tws)
        [PDict [(KStr ''name'', Scalar (KStr ''disconnect'')),
                (KStr ''parameters'', PDict [(KStr ''force'', Scalar (KBool True))])],
         PDict [(KStr ''name'', Scalar (KStr ''positions''))]] True (Some True)
       = (None,
          [Activate ''disconnect'' (PDict [(KStr ''force'', Scalar (KBool True))]),
           ToolResult (Scalar (KStr ''disconnect''))
             \<lparr>result = ''failed'',
              message = Scalar (KStr (''Error executing disconnect: ''
                          @ ''disconnect() got an unexpected keyword argument '' @ quoted ''force''))\<rparr>,
           Activate ''positions'' (PDict []),
           ToolResult (Scalar (KStr ''positions'')) \<lparr>result = ''success'', message = PList []\<rparr>],
          True, Some True)"
proof -
  let ?p = "PDict [(KStr ''force'', Scalar (KBool True))]"
  let ?d = "[(KStr ''name'', Scalar (KStr ''disconnect'')), (KStr ''parameters'', ?p)]"
  let ?a = "PDict [(KStr ''name'', Scalar (KStr ''positions''))]"
  let ?e = "Exn ''TypeError'' (''disconnect() got an unexpected keyword argument '' @ quoted ''force'')"
  have h1: "dict_get ?d ''name'' (Scalar KNone) = Scalar (KStr ''disconnect'')"
    by (simp add: dict_get_def)
  have h2: "dict_get ?d ''parameters'' (PDict []) = ?p"
    by (simp add: dict_get_def)
  have h3: "map_of (TOOLS default_config sample_tws) ''disconnect'' = Some disconnect_tool"
    by (simp add: TOOLS_def)
  have h4: "call_tool disconnect_tool ?p (Some True) = (Inl ?e, Some True)"
    by code_simp
  have r: "run_actions (TOOLS default_config sample_tws) [?a] True (Some True)
           = (None,
              [Activate ''positions'' (PDict []),
               ToolResult (Scalar (KStr ''positions'')) \<lparr>result = ''success'', message = PList []\<rparr>],
              True, Some True)"
    by code_simp
  have m: "''Error executing '' @ ''disconnect'' @ '': '' @ str_exn ?e
           = ''Error executing disconnect: ''
              @ ''disconnect() got an unexpected keyword argument '' @ quoted ''force''"
    by simp
  show ?thesis
    using h1 h3 h4 capability_error_becomes_outcome [OF h1 h2 h3 h4, of "[?a]" True]
    by (simp only: r m prod.case simp_thms)
qed

section \<open>The broker tools without a session\<close>

text \<open>
  Claim C9.  While \<^verbatim>\<open>ib\<close> is \<^verbatim>\<open>None\<close> or not connected, each of \<^verbatim>\<open>qualifyContracts\<close>,
  \<^verbatim>\<open>reqMktData\<close>, \<^verbatim>\<open>placeOrder\<close>, \<^verbatim>\<open>positions\<close> and \<^verbatim>\<open>accountValues\<close> returns the failed
  outcome with the message \<^verbatim>\<open>Not connected to IB TWS. Use 'connect' first.\<close>, whatever its
  arguments: it returns, it does not raise, and \<^verbatim>\<open>ib\<close> stays as it is.
\<close>

theorem session_tools_report_not_connected:
  assumes "\<not> session_active ib"
  shows "qualifyContracts t symbol secType exchange currency ib = (Inr not_connected, ib)
       \<and> reqMktData t symbol secType exchange currency ib = (Inr not_connected, ib)
       \<and> placeOrder t symbol action quantity limitPrice secType exchange currency ib
           = (Inr not_connected, ib)
       \<and> positions t account ib = (Inr not_connected, ib)
       \<and> accountValues t account ib = (Inr not_connected, ib)
       \<and> not_connected
           = \<lparr>result = ''failed'',
              message = Scalar (KStr ''Not connected to IB TWS. Use 'connect' first.'')\<rparr>"
  using assms
  by (simp add: qualifyContracts_def reqMktData_def placeOrder_def positions_def
        accountValues_def not_connected_def text_response_def create_response_def)

theorem session_tools_report_not_connected_witness:
  "\<not> session_active (Some False)
   \<and> reqMktData sample_tws (Scalar (KStr ''AAPL'')) (Scalar (KStr ''STK''))
        (Scalar (KStr ''SMART'')) (Scalar (KStr ''USD'')) (Some False)
       = (Inr \<lparr>result = ''failed'',
               message = Scalar (KStr ''Not connected to IB TWS. Use 'connect' first.'')\<rparr>,
          Some False)"
proof -
  have h: "\<not> session_active (Some False)" by (simp add: session_active_def)
  show ?thesis
    using h session_tools_report_not_connected
              [OF h, of sample_tws "Scalar (KStr ''AAPL'')" "Scalar (KStr ''STK'')"
                 "Scalar (KStr ''SMART'')" "Scalar (KStr ''USD'')"]
    by simp
qed

text \<open>
  Claim C10.  While \<^verbatim>\<open>ib\<close> is \<^verbatim>\<open>None\<close> or not connected, \<^verbatim>\<open>disconnect\<close> returns the failed
  outcome \<^verbatim>\<open>No active connection to disconnect\<close> without raising, and an action named
  \<^verbatim>\<open>disconnect\<close> run by the loop of \<^verbatim>\<open>main\<close> against the registry of \<^verbatim>\<open>ib.py\<close> leaves the
  connection flag (and \<^verbatim>\<open>ib\<close>) unchanged, whatever its parameters.
\<close>

theorem disconnect_without_session:
  assumes "\<not> session_active ib"
    and "dict_get d ''name'' (Scalar KNone) = Scalar (KStr ''disconnect'')"
  shows "disconnect ib
           = (Inr \<lparr>result = ''failed'',
                   message = Scalar (KStr ''No active connection to disconnect'')\<rparr>, ib)
         \<and> (\<exists>out. run_action (TOOLS cfg t) (PDict d) c ib = Inr (out, c, ib))"
proof -
  have dis: "disconnect ib
           = (Inr \<lparr>result = ''failed'',
                   message = Scalar (KStr ''No active connection to disconnect'')\<rparr>, ib)"
    using assms(1) by (simp add: disconnect_def text_response_def create_response_def)
  have reg: "map_of (TOOLS cfg t) ''disconnect'' = Some disconnect_tool"
    by (simp add: TOOLS_def)
  have call: "\<exists>e. call_tool disconnect_tool p ib = (Inl e, ib)
                \<or> call_tool disconnect_tool p ib
                    = (Inr \<lparr>result = ''failed'',
                            message = Scalar (KStr ''No active connection to disconnect'')\<rparr>, ib)"
    for p
    by (cases "bind_args (fmodule disconnect_tool) (fname disconnect_tool)
                 (parameters disconnect_tool) p")
       (simp_all add: call_tool_def dis disconnect_tool_def)
  have "\<exists>ev r. execute_tool (TOOLS cfg t) (Scalar (KStr ''disconnect'')) p ib = Inr (ev, r, ib)
               \<and> result r = ''failed''" for p
    using call [of p] by (auto simp: execute_tool_def reg failed_def)
  then obtain ev r where
    "execute_tool (TOOLS cfg t) (Scalar (KStr ''disconnect'')) (dict_get d ''parameters'' (PDict [])) ib
       = Inr (ev, r, ib)" and "result r = ''failed''"
    by blast
  then have "run_action (TOOLS cfg t) (PDict d) c ib
             = Inr (ev @ [ToolResult (Scalar (KStr ''disconnect'')) r], c, ib)"
    using assms(2) by (simp add: run_action_def Let_def update_connected_def)
  with dis show ?thesis by blast
qed

theorem disconnect_without_session_witness:
  "\<not> session_active None
   \<and> dict_get [(KStr ''name'', Scalar (KStr ''disconnect'')), (KStr ''parameters'', PDict [])]
       ''name'' (Scalar KNone) = Scalar (KStr ''disconnect'')
   \<and> disconnect None
       = (Inr \<lparr>result = ''failed'',
               message = Scalar (KStr ''No active connection to disconnect'')\<rparr>, None)
   \<and> (\<exists>out. run_action (TOOLS default_config sample_tws)
                (PDict [(KStr ''name'', Scalar (KStr ''disconnect'')), (KStr ''parameters'', PDict [])])
                True None = Inr (out, True, None))"
proof -
  let ?d = "[(KStr ''name'', Scalar (KStr ''disconnect'')), (KStr ''parameters'', PDict [])]"
  have h: "\<not> session_active None" by (simp add: session_active_def)
  have n: "dict_get ?d ''name'' (Scalar KNone) = Scalar (KStr ''disconnect'')"
    by (simp add: dict_get_def)
  show ?thesis
    using h n disconnect_without_session [OF h n, of default_config sample_tws True]
    by (simp only: simp_thms)
qed

section \<open>The schema description\<close>















end
